theory Spec2Isabelle
  imports Complex_Main
begin

section \<open>Health survey backend: data model\<close>

text \<open>
  The service of \<^verbatim>\<open>backend/main.py\<close> keeps two CSV tables on disk, the employee roster
  and the survey responses, and reads and rewrites them through pandas. A file is modelled by
  the table pandas reads from it (\<open>None\<close> when the file does not exist); the text of the
  CSV file itself is only modelled where the program builds it for a download. Python floats
  are idealised as exact rationals, a missing value (pandas' NaN) is the cell \<open>NaN\<close>.
  A Python string is a list of characters.
\<close>

subsection \<open>Exceptions\<close>

datatype exn =
    HTTPException nat string
  | FileNotFoundError string
  | KeyError string
  | TypeError string

fun digit_char :: "nat \<Rightarrow> char" where
  "digit_char n = (''0123456789'' ! (n mod 10))"

fun str_nat :: "nat \<Rightarrow> string" where
  "str_nat n = (if n < 10 then [digit_char n] else str_nat (n div 10) @ [digit_char n])"

definition str_int :: "int \<Rightarrow> string" where
  "str_int i = (if i < 0 then CHR ''-'' # str_nat (nat (- i)) else str_nat (nat i))"

text \<open>\<open>str(e)\<close>: an \<open>HTTPException\<close> prints as status and detail, a \<open>KeyError\<close> as the
  quoted key, the others as their message.\<close>

fun str_exn :: "exn \<Rightarrow> string" where
  "str_exn (HTTPException c d) = str_nat c @ '': '' @ d"
| "str_exn (FileNotFoundError m) = m"
| "str_exn (KeyError k) = [CHR 0x27] @ k @ [CHR 0x27]"
| "str_exn (TypeError m) = m"

text \<open>The status of the HTTP response: the status of the \<open>HTTPException\<close> that leaves the
  handler, 500 for any other exception, 200 for a returned value.\<close>

fun http_status :: "exn + 'a \<Rightarrow> nat" where
  "http_status (Inl (HTTPException c d)) = c"
| "http_status (Inl _) = 500"
| "http_status (Inr _) = 200"

fun http_detail :: "exn + 'a \<Rightarrow> string option" where
  "http_detail (Inl (HTTPException c d)) = Some d"
| "http_detail _ = None"

subsection \<open>Tables\<close>

datatype cell = NaN | IntC int | FloatC rat | StrC string

text \<open>A data frame: the column labels in order and the rows in order. A row maps a label
  to a cell; a label it does not list holds \<open>NaN\<close>.\<close>

record dataframe =
  columns :: "string list"
  rows :: "(string \<times> cell) list list"

definition cell_at :: "(string \<times> cell) list \<Rightarrow> string \<Rightarrow> cell" where
  "cell_at r c = (case map_of r c of None \<Rightarrow> NaN | Some v \<Rightarrow> v)"

text \<open>\<open>row[c]\<close> of \<open>iterrows\<close>: a \<open>KeyError\<close> when the frame has no such column.\<close>

definition row_get :: "dataframe \<Rightarrow> (string \<times> cell) list \<Rightarrow> string \<Rightarrow> exn + cell" where
  "row_get df r c = (if c \<in> set (columns df) then Inr (cell_at r c) else Inl (KeyError c))"

text \<open>\<open>df.empty\<close>: some axis has length 0.\<close>

definition empty_df :: "dataframe \<Rightarrow> bool" where
  "empty_df df = (columns df = [] \<or> rows df = [])"

text \<open>\<open>str(v)\<close> of a cell; how a float prints is the parameter \<open>frepr\<close>.\<close>

fun py_str :: "(rat \<Rightarrow> string) \<Rightarrow> cell \<Rightarrow> string" where
  "py_str frepr NaN = ''nan''"
| "py_str frepr (IntC i) = str_int i"
| "py_str frepr (FloatC x) = frepr x"
| "py_str frepr (StrC s) = s"

text \<open>\<open>s.zfill(width)\<close>: zeros are put in front, after a leading sign.\<close>

definition zfill :: "nat \<Rightarrow> string \<Rightarrow> string" where
  "zfill width s =
     (if width \<le> length s then s
      else (case s of
              [] \<Rightarrow> replicate width (CHR ''0'')
            | c # cs \<Rightarrow>
                if c = CHR ''+'' \<or> c = CHR ''-''
                then c # replicate (width - length s) (CHR ''0'') @ cs
                else replicate (width - length s) (CHR ''0'') @ s))"

subsection \<open>The files\<close>

record files =
  employees_csv :: "dataframe option"
  survey_data_csv :: "dataframe option"

record Employee =
  EmployeeNumber :: string
  EmployeeName :: string

section \<open>Roster: \<open>load_employees\<close>\<close>

fun load_rows :: "(rat \<Rightarrow> string) \<Rightarrow> dataframe \<Rightarrow> (string \<times> cell) list list \<Rightarrow> exn + Employee list" where
  "load_rows frepr df [] = Inr []"
| "load_rows frepr df (r # rs) =
     (case row_get df r ''EmployeeNumber'' of
        Inl e \<Rightarrow> Inl e
      | Inr num \<Rightarrow>
          (case row_get df r ''EmployeeName'' of
             Inl e \<Rightarrow> Inl e
           | Inr name \<Rightarrow>
               (case load_rows frepr df rs of
                  Inl e \<Rightarrow> Inl e
                | Inr emps \<Rightarrow>
                    Inr (\<lparr>EmployeeNumber = zfill 8 (py_str frepr num),
                          EmployeeName = py_str frepr name\<rparr> # emps))))"

definition load_employees_body :: "(rat \<Rightarrow> string) \<Rightarrow> files \<Rightarrow> exn + Employee list" where
  "load_employees_body frepr fs =
     (case employees_csv fs of
        None \<Rightarrow> Inl (HTTPException 404 ''Employee data file not found'')
      | Some df \<Rightarrow> load_rows frepr df (rows df))"

text \<open>The whole body is inside \<open>try\<close>, and \<open>except Exception\<close> catches every exception,
  the \<open>HTTPException\<close> of the body too.\<close>

definition load_employees :: "(rat \<Rightarrow> string) \<Rightarrow> files \<Rightarrow> exn + Employee list" where
  "load_employees frepr fs =
     (case load_employees_body frepr fs of
        Inl e \<Rightarrow> Inl (HTTPException 500 (''Error loading employee data: '' @ str_exn e))
      | Inr emps \<Rightarrow> Inr emps)"

section \<open>Record store: \<open>initialize_survey_csv\<close>, \<open>submit_survey\<close>, \<open>get_survey_responses\<close>\<close>

definition headers :: "string list" where
  "headers =
     [''SubmissionDate'', ''EmployeeNumber'', ''EmployeeName'', ''Gender'', ''Age'',
      ''Waist Circumference (inches)'', ''Height - Feet'', ''Height - Inches'',
      ''Weight (lb)'', ''BMI'', ''BMI Category'']"


record SurveySubmission =
  employeeNumber :: string
  employeeName :: string
  gender :: string
  age :: int
  waistCircumference :: rat
  heightFeet :: int
  heightInches :: int
  weight :: rat
  bmi :: rat
  bmiCategory :: string

text \<open>Rounding to the nearest integer, a tie going to the even neighbour, and Python's
  \<open>round(x, 1)\<close> on top of it.\<close>

definition round_half_even :: "rat \<Rightarrow> int" where
  "round_half_even x =
     (let f = \<lfloor>x\<rfloor>; d = x - of_int f
      in if d < 1 / 2 then f
         else if 1 / 2 < d then f + 1
         else if even f then f else f + 1)"

definition round1 :: "rat \<Rightarrow> rat" where
  "round1 x = of_int (round_half_even (x * 10)) / 10"

text \<open>\<open>pd.DataFrame([d])\<close> of one dictionary, and \<open>pd.concat([a, b], ignore_index=True)\<close>:
  the columns of \<open>a\<close>, then the columns only \<open>b\<close> has; the rows of \<open>a\<close>, then the rows of
  \<open>b\<close>, a cell of a column the row's frame did not have being \<open>NaN\<close>.\<close>

definition frame_of_dict :: "(string \<times> cell) list \<Rightarrow> dataframe" where
  "frame_of_dict d = \<lparr>columns = map fst d, rows = [d]\<rparr>"

definition reindex_row :: "string list \<Rightarrow> dataframe \<Rightarrow> (string \<times> cell) list \<Rightarrow> (string \<times> cell) list" where
  "reindex_row cols df r =
     map (\<lambda>c. (c, if c \<in> set (columns df) then cell_at r c else NaN)) cols"

definition concat_df :: "dataframe \<Rightarrow> dataframe \<Rightarrow> dataframe" where
  "concat_df a b =
     (let cols = columns a @ filter (\<lambda>c. c \<notin> set (columns a)) (columns b)
      in \<lparr>columns = cols,
          rows = map (reindex_row cols a) (rows a) @ map (reindex_row cols b) (rows b)\<rparr>)"

record submit_response =
  message :: string
  data :: "(string \<times> cell) list"

definition survey_data_of :: "string \<Rightarrow> string \<Rightarrow> SurveySubmission \<Rightarrow> (string \<times> cell) list" where
  "survey_data_of now formatted_emp_num survey =
     [(''SubmissionDate'', StrC now),
      (''EmployeeNumber'', StrC formatted_emp_num),
      (''EmployeeName'', StrC (employeeName survey)),
      (''Gender'', StrC (gender survey)),
      (''Age'', IntC (age survey)),
      (''Waist Circumference (inches)'', FloatC (waistCircumference survey)),
      (''Height - Feet'', IntC (heightFeet survey)),
      (''Height - Inches'', IntC (heightInches survey)),
      (''Weight (lb)'', FloatC (weight survey)),
      (''BMI'', FloatC (round1 (bmi survey))),
      (''BMI Category'', StrC (bmiCategory survey))]"

text \<open>The body of the \<open>try\<close> block of \<open>submit_survey\<close>; \<open>now\<close> is the formatted current time.
  It returns the response and the files after the write.\<close>

definition submit_survey_body ::
    "(rat \<Rightarrow> string) \<Rightarrow> files \<Rightarrow> string \<Rightarrow> SurveySubmission \<Rightarrow> exn + (submit_response \<times> files)" where
  "submit_survey_body frepr fs now survey =
     (case load_employees frepr fs of
        Inl e \<Rightarrow> Inl e
      | Inr employees \<Rightarrow>
          (let employee_numbers = map EmployeeNumber employees;
               formatted_emp_num = zfill 8 (employeeNumber survey)
           in if formatted_emp_num \<notin> set employee_numbers
              then Inl (HTTPException 400 ''Invalid employee number'')
              else
                (let survey_data = survey_data_of now formatted_emp_num survey;
                     updated_df =
                       (case survey_data_csv fs of
                          Some existing_df \<Rightarrow> concat_df existing_df (frame_of_dict survey_data)
                        | None \<Rightarrow> frame_of_dict survey_data)
                 in Inr (\<lparr>message = ''Survey submitted successfully'', data = survey_data\<rparr>,
                         fs\<lparr>survey_data_csv := Some updated_df\<rparr>))))"

definition submit_survey ::
    "(rat \<Rightarrow> string) \<Rightarrow> files \<Rightarrow> string \<Rightarrow> SurveySubmission \<Rightarrow> (exn + submit_response) \<times> files" where
  "submit_survey frepr fs now survey =
     (case submit_survey_body frepr fs now survey of
        Inl e \<Rightarrow> (Inl (HTTPException 500 (''Error submitting survey: '' @ str_exn e)), fs)
      | Inr (resp, fs') \<Rightarrow> (Inr resp, fs'))"

text \<open>\<open>df.to_dict('records')\<close>: one dictionary a row, its keys the columns in order.\<close>

definition to_dict_records :: "dataframe \<Rightarrow> (string \<times> cell) list list" where
  "to_dict_records df = map (\<lambda>r. map (\<lambda>c. (c, cell_at r c)) (columns df)) (rows df)"

definition get_survey_responses :: "files \<Rightarrow> exn + (string \<times> cell) list list" where
  "get_survey_responses fs =
     (case survey_data_csv fs of
        None \<Rightarrow> Inr []
      | Some df \<Rightarrow> Inr (to_dict_records df))"


section \<open>Exporter: the two downloads\<close>

definition expected_columns :: "string list" where
  "expected_columns =
     [''SubmissionDate'', ''EmployeeNumber'', ''EmployeeName'', ''Gender'', ''Age'',
      ''Waist Circumference (inches)'', ''Height - Feet'', ''Height - Inches'',
      ''Weight (lb)'', ''BMI'', ''BMI Category'']"

text \<open>\<open>df.reindex(columns=cols)\<close>: exactly the columns \<open>cols\<close>, a column the frame did not
  have filled with \<open>NaN\<close>.\<close>

definition reindex_columns :: "string list \<Rightarrow> dataframe \<Rightarrow> dataframe" where
  "reindex_columns cols df = \<lparr>columns = cols, rows = map (reindex_row cols df) (rows df)\<rparr>"

text \<open>\<open>df.to_csv(output, index=False, quoting=1)\<close>: \<open>quoting=1\<close> is \<open>csv.QUOTE_ALL\<close>. Every
  field, of the header line too, is put between double quotes, a double quote inside it
  doubled; the fields of a line are joined by commas and the line ends with the line
  terminator, here a newline. A missing value is the empty text.\<close>

fun csv_text :: "(rat \<Rightarrow> string) \<Rightarrow> cell \<Rightarrow> string" where
  "csv_text frepr NaN = []"
| "csv_text frepr (IntC i) = str_int i"
| "csv_text frepr (FloatC x) = frepr x"
| "csv_text frepr (StrC s) = s"

definition quote_field :: "string \<Rightarrow> string" where
  "quote_field s =
     CHR 0x22 # concat (map (\<lambda>c. if c = CHR 0x22 then [CHR 0x22, CHR 0x22] else [c]) s) @ [CHR 0x22]"

fun join :: "string \<Rightarrow> string list \<Rightarrow> string" where
  "join sep [] = []"
| "join sep [x] = x"
| "join sep (x # y # ys) = x @ sep @ join sep (y # ys)"

definition csv_line :: "string list \<Rightarrow> string" where
  "csv_line texts = join '','' (map quote_field texts) @ [CHR 0x0A]"

definition csv_records :: "(rat \<Rightarrow> string) \<Rightarrow> dataframe \<Rightarrow> string list list" where
  "csv_records frepr df =
     columns df # map (\<lambda>r. map (\<lambda>c. csv_text frepr (cell_at r c)) (columns df)) (rows df)"

definition to_csv_quote_all :: "(rat \<Rightarrow> string) \<Rightarrow> dataframe \<Rightarrow> string" where
  "to_csv_quote_all frepr df = concat (map csv_line (csv_records frepr df))"

record 'a download =
  filename :: string
  media_type :: string
  content :: 'a

text \<open>\<open>stamp\<close> is the current time formatted as \<open>%Y%m%d_%H%M%S\<close>.\<close>

definition download_survey_responses_body ::
    "(rat \<Rightarrow> string) \<Rightarrow> files \<Rightarrow> string \<Rightarrow> exn + string download" where
  "download_survey_responses_body frepr fs stamp =
     (case survey_data_csv fs of
        None \<Rightarrow> Inl (HTTPException 404 ''No survey responses found'')
      | Some df0 \<Rightarrow>
          if empty_df df0
          then Inl (HTTPException 404 ''No survey responses available for download'')
          else
            (let df = reindex_columns expected_columns df0;
                 csv_content = to_csv_quote_all frepr df
             in Inr \<lparr>filename = ''survey_responses_'' @ stamp @ ''.csv'',
                     media_type = ''text/csv'',
                     content = csv_content\<rparr>))"

text \<open>The two \<open>except\<close> clauses of both downloads, in their order: \<open>FileNotFoundError\<close>
  first, then \<open>Exception\<close>, which an \<open>HTTPException\<close> is.\<close>

fun download_except :: "exn \<Rightarrow> exn" where
  "download_except (FileNotFoundError m) = HTTPException 404 ''Survey responses file not found''"
| "download_except e = HTTPException 500 (''Error downloading survey responses: '' @ str_exn e)"

definition download_survey_responses ::
    "(rat \<Rightarrow> string) \<Rightarrow> files \<Rightarrow> string \<Rightarrow> exn + string download" where
  "download_survey_responses frepr fs stamp =
     (case download_survey_responses_body frepr fs stamp of
        Inl e \<Rightarrow> Inl (download_except e)
      | Inr r \<Rightarrow> Inr r)"

text \<open>The spreadsheet: \<open>df.to_excel(writer, sheet_name='Survey Responses', index=False)\<close>
  writes the column labels in the first row and one row a record below it. The fonts, fills,
  borders, widths and heights set afterwards are presentation and are not modelled.\<close>

record worksheet =
  sheet_name :: string
  header_row :: "string list"
  data_rows :: "cell list list"

definition to_excel :: "dataframe \<Rightarrow> worksheet" where
  "to_excel df =
     \<lparr>sheet_name = ''Survey Responses'',
      header_row = columns df,
      data_rows = map (\<lambda>r. map (cell_at r) (columns df)) (rows df)\<rparr>"

definition download_survey_responses_excel_body ::
    "files \<Rightarrow> string \<Rightarrow> exn + worksheet download" where
  "download_survey_responses_excel_body fs stamp =
     (case survey_data_csv fs of
        None \<Rightarrow> Inl (HTTPException 404 ''No survey responses found'')
      | Some df0 \<Rightarrow>
          if empty_df df0
          then Inl (HTTPException 404 ''No survey responses available for download'')
          else
            (let df = reindex_columns expected_columns df0
             in Inr \<lparr>filename = ''survey_responses_'' @ stamp @ ''.xlsx'',
                     media_type = ''application/vnd.openxmlformats-officedocument.spreadsheetml.sheet'',
                     content = to_excel df\<rparr>))"

definition download_survey_responses_excel ::
    "files \<Rightarrow> string \<Rightarrow> exn + worksheet download" where
  "download_survey_responses_excel fs stamp =
     (case download_survey_responses_excel_body fs stamp of
        Inl e \<Rightarrow> Inl (download_except e)
      | Inr r \<Rightarrow> Inr r)"

section \<open>Aggregator: \<open>get_survey_statistics\<close>\<close>

text \<open>A float that a computation on a column gives back: \<open>None\<close> is NaN.\<close>

type_synonym pyfloat = "rat option"

definition bind :: "exn + 'a \<Rightarrow> ('a \<Rightarrow> exn + 'b) \<Rightarrow> exn + 'b" where
  "bind m f = (case m of Inl e \<Rightarrow> Inl e | Inr x \<Rightarrow> f x)"

text \<open>\<open>df[c]\<close>, the cells of one column from the first row to the last.\<close>

definition column :: "dataframe \<Rightarrow> string \<Rightarrow> cell list" where
  "column df c = map (\<lambda>r. cell_at r c) (rows df)"

text \<open>The number in a cell, for arithmetic on a column: NaN stays missing, a text in a
  numeric computation raises \<open>TypeError\<close>.\<close>

fun num_of :: "cell \<Rightarrow> exn + pyfloat" where
  "num_of NaN = Inr None"
| "num_of (IntC i) = Inr (Some (of_int i))"
| "num_of (FloatC x) = Inr (Some x)"
| "num_of (StrC s) = Inl (TypeError ''Could not convert string to numeric'')"

fun nums_of :: "cell list \<Rightarrow> exn + pyfloat list" where
  "nums_of [] = Inr []"
| "nums_of (v # vs) = bind (num_of v) (\<lambda>x. bind (nums_of vs) (\<lambda>xs. Inr (x # xs)))"

text \<open>\<open>series.isna().all()\<close> and \<open>series.mean()\<close>: the mean leaves the missing values out,
  and is NaN when nothing is left.\<close>

definition isna_all :: "cell list \<Rightarrow> bool" where
  "isna_all vs = list_all (\<lambda>v. v = NaN) vs"

definition present :: "pyfloat list \<Rightarrow> rat list" where
  "present xs = concat (map (\<lambda>x. case x of None \<Rightarrow> [] | Some y \<Rightarrow> [y]) xs)"

definition mean_of :: "pyfloat list \<Rightarrow> pyfloat" where
  "mean_of xs =
     (let ys = present xs
      in if ys = [] then None else Some (sum_list ys / of_nat (length ys)))"

definition series_mean :: "cell list \<Rightarrow> exn + pyfloat" where
  "series_mean vs = bind (nums_of vs) (\<lambda>xs. Inr (mean_of xs))"

text \<open>\<open>round(df[c].mean(), 1) if c in df.columns and not df[c].isna().all() else 0\<close>\<close>

definition avg_column :: "dataframe \<Rightarrow> string \<Rightarrow> exn + pyfloat" where
  "avg_column df c =
     (if c \<in> set (columns df) \<and> \<not> isna_all (column df c)
      then bind (series_mean (column df c)) (\<lambda>m. Inr (map_option round1 m))
      else Inr (Some 0))"

text \<open>\<open>series.value_counts().to_dict()\<close>: how often each value that is not missing occurs.\<close>

definition value_counts :: "cell list \<Rightarrow> (cell \<times> nat) list" where
  "value_counts vs =
     (let ws = filter (\<lambda>v. v \<noteq> NaN) vs
      in map (\<lambda>v. (v, count_list ws v)) (remdups ws))"

definition distribution :: "dataframe \<Rightarrow> string \<Rightarrow> (cell \<times> nat) list" where
  "distribution df c = (if c \<in> set (columns df) then value_counts (column df c) else [])"

text \<open>\<open>df['Height - Feet'] * 12 + df['Height - Inches']\<close>, row by row: missing when one of
  the two is.\<close>

definition total_inches :: "cell \<Rightarrow> cell \<Rightarrow> exn + pyfloat" where
  "total_inches f i =
     bind (num_of f) (\<lambda>a. bind (num_of i) (\<lambda>b.
       Inr (case (a, b) of (Some x, Some y) \<Rightarrow> Some (x * 12 + y) | _ \<Rightarrow> None)))"

fun total_height_inches :: "cell list \<Rightarrow> cell list \<Rightarrow> exn + pyfloat list" where
  "total_height_inches (f # fs) (i # is) =
     bind (total_inches f i) (\<lambda>x. bind (total_height_inches fs is) (\<lambda>xs. Inr (x # xs)))"
| "total_height_inches _ _ = Inr []"

text \<open>The average height: the mean of the total inches is rounded to one decimal first;
  feet (\<open>int(avg // 12)\<close>) and inches (\<open>round(avg % 12, 1)\<close>) are taken from the rounded
  mean, and are 0 unless it is positive. A comparison with NaN is false.\<close>

fun height_feet_of :: "pyfloat \<Rightarrow> int" where
  "height_feet_of None = 0"
| "height_feet_of (Some a) = (if 0 < a then \<lfloor>a / 12\<rfloor> else 0)"

fun height_inches_of :: "pyfloat \<Rightarrow> rat" where
  "height_inches_of None = 0"
| "height_inches_of (Some a) = (if 0 < a then round1 (a - 12 * of_int \<lfloor>a / 12\<rfloor>) else 0)"

definition avg_height :: "dataframe \<Rightarrow> exn + (int \<times> rat)" where
  "avg_height df =
     (if ''Height - Feet'' \<in> set (columns df) \<and> ''Height - Inches'' \<in> set (columns df)
      then
        bind (total_height_inches (column df ''Height - Feet'') (column df ''Height - Inches''))
          (\<lambda>total.
            (let avg_height_total_inches =
                   (if \<not> list_all (\<lambda>x. x = None) total then map_option round1 (mean_of total)
                    else Some 0)
             in Inr (height_feet_of avg_height_total_inches,
                     height_inches_of avg_height_total_inches)))
      else Inr (0, 0))"

text \<open>The clock and the file system as far as the statistics use them: how a cell parses as
  a time (\<open>pd.to_datetime(..., errors='coerce')\<close>, \<open>None\<close> for what does not parse), how a
  time prints, and the size of the survey file in bytes.\<close>

record os_env =
  to_datetime :: "cell \<Rightarrow> int option"
  strftime :: "int \<Rightarrow> string"
  getsize :: nat

definition date_range :: "os_env \<Rightarrow> dataframe \<Rightarrow> string \<times> string" where
  "date_range w df =
     (if ''SubmissionDate'' \<in> set (columns df)
      then
        (let ts = concat (map (\<lambda>v. case to_datetime w v of None \<Rightarrow> [] | Some t \<Rightarrow> [t])
                            (column df ''SubmissionDate''))
         in if ts = [] then (''N/A'', ''N/A'')
            else (strftime w (Min (set ts)), strftime w (Max (set ts))))
      else (''N/A'', ''N/A''))"

definition round_half_even_at :: "nat \<Rightarrow> rat \<Rightarrow> rat" where
  "round_half_even_at k x = of_int (round_half_even (x * 10 ^ k)) / 10 ^ k"

record statistics =
  total_responses :: nat
  gender_distribution :: "(cell \<times> nat) list"
  avg_age :: pyfloat
  avg_bmi :: pyfloat
  avg_waist :: pyfloat
  avg_weight :: pyfloat
  avg_height_feet :: int
  avg_height_inches :: rat
  bmi_categories :: "(cell \<times> nat) list"
  first_response :: string
  last_response :: string
  size_kb :: rat
  location :: string

datatype stats_response = NoData nat string | Statistics statistics

definition get_survey_statistics_body :: "os_env \<Rightarrow> files \<Rightarrow> exn + stats_response" where
  "get_survey_statistics_body w fs =
     (case survey_data_csv fs of
        None \<Rightarrow> Inr (NoData 0 ''No survey data available'')
      | Some df \<Rightarrow>
          if empty_df df then Inr (NoData 0 ''No survey responses available'')
          else
            bind (avg_column df ''Age'') (\<lambda>a_age.
            bind (avg_column df ''BMI'') (\<lambda>a_bmi.
            bind (avg_column df ''Waist Circumference (inches)'') (\<lambda>a_waist.
            bind (avg_column df ''Weight (lb)'') (\<lambda>a_weight.
            bind (avg_height df) (\<lambda>(h_feet, h_inches).
              Inr (Statistics
                \<lparr>total_responses = length (rows df),
                 gender_distribution = distribution df ''Gender'',
                 avg_age = a_age,
                 avg_bmi = a_bmi,
                 avg_waist = a_waist,
                 avg_weight = a_weight,
                 avg_height_feet = h_feet,
                 avg_height_inches = h_inches,
                 bmi_categories = distribution df ''BMI Category'',
                 first_response = fst (date_range w df),
                 last_response = snd (date_range w df),
                 size_kb = round_half_even_at 2 (of_nat (getsize w) / 1024),
                 location = ''data/survey_responses.csv''\<rparr>)))))))"

definition get_survey_statistics :: "os_env \<Rightarrow> files \<Rightarrow> exn + stats_response" where
  "get_survey_statistics w fs =
     (case get_survey_statistics_body w fs of
        Inl e \<Rightarrow> Inl (HTTPException 500 (''Error retrieving survey statistics: '' @ str_exn e))
      | Inr r \<Rightarrow> Inr r)"

section \<open>Notions of the specification and example inputs\<close>

text \<open>A decimal string, the employee made of one roster row, and the text of its number
  before padding.\<close>

definition decimal_string :: "string \<Rightarrow> bool" where
  "decimal_string s = list_all (\<lambda>c. c \<in> set ''0123456789'') s"

definition raw_number :: "(rat \<Rightarrow> string) \<Rightarrow> (string \<times> cell) list \<Rightarrow> string" where
  "raw_number frepr r = py_str frepr (cell_at r ''EmployeeNumber'')"

definition employee_of :: "(rat \<Rightarrow> string) \<Rightarrow> (string \<times> cell) list \<Rightarrow> Employee" where
  "employee_of frepr r =
     \<lparr>EmployeeNumber = zfill 8 (py_str frepr (cell_at r ''EmployeeNumber'')),
      EmployeeName = py_str frepr (cell_at r ''EmployeeName'')\<rparr>"

text \<open>The record a submission is stored as, the responses among a list of results, and
  whether a result is a response.\<close>

definition stored_record :: "string \<times> SurveySubmission \<Rightarrow> (string \<times> cell) list" where
  "stored_record p = survey_data_of (fst p) (zfill 8 (employeeNumber (snd p))) (snd p)"



text \<open>A roster of three employees of the sample data, the number of the third written
  without its leading zeros; no survey file yet; and one submission.\<close>

definition roster_example :: dataframe where
  "roster_example =
     \<lparr>columns = [''EmployeeNumber'', ''EmployeeName''],
      rows = [[(''EmployeeNumber'', StrC ''00071215''), (''EmployeeName'', StrC ''Pyae Phyo Latt'')],
              [(''EmployeeNumber'', StrC ''00070098''), (''EmployeeName'', StrC ''Aye Aye Tun'')],
              [(''EmployeeNumber'', StrC ''70782''), (''EmployeeName'', StrC ''Ni Ni Aung'')]]\<rparr>"

definition files_example :: files where
  "files_example = \<lparr>employees_csv = Some roster_example, survey_data_csv = None\<rparr>"

definition survey_example :: SurveySubmission where
  "survey_example =
     \<lparr>employeeNumber = ''70098'', employeeName = ''Somebody Else'', gender = ''Female'',
      age = 30, waistCircumference = 31, heightFeet = 5, heightInches = 4, weight = 130,
      bmi = 2434 / 100, bmiCategory = ''Normal''\<rparr>"

text \<open>The statistics as the specification words them. A column is numeric when no cell of
  it is a text; the values of a column are the numbers in it, missing cells left out; the
  average of a column is the mean of its values rounded to one decimal, and 0 when the frame
  has no such column or the column has no value.\<close>

fun is_text :: "cell \<Rightarrow> bool" where
  "is_text (StrC s) = True"
| "is_text _ = False"

definition numeric_column :: "dataframe \<Rightarrow> string \<Rightarrow> bool" where
  "numeric_column df c = list_all (\<lambda>v. \<not> is_text v) (column df c)"

fun cell_values :: "cell list \<Rightarrow> rat list" where
  "cell_values [] = []"
| "cell_values (IntC i # vs) = of_int i # cell_values vs"
| "cell_values (FloatC x # vs) = x # cell_values vs"
| "cell_values (v # vs) = cell_values vs"

definition spec_average :: "dataframe \<Rightarrow> string \<Rightarrow> rat" where
  "spec_average df c =
     (let vals = (if c \<in> set (columns df) then cell_values (column df c) else [])
      in if vals = [] then 0 else round1 (sum_list vals / of_nat (length vals)))"

text \<open>The heights of the records in inches, \<open>feet * 12 + inches\<close>, for the records that
  have both numbers. \<open>claimed_avg_height\<close> words the average height as the specification does:
  the mean, its floor of a twelfth as feet, the remainder rounded to one decimal as inches.
  \<open>amended_avg_height\<close> rounds the mean to one decimal first and takes feet and inches from
  the rounded mean, 0 and 0 unless it is positive.\<close>

fun number :: "cell \<Rightarrow> rat option" where
  "number (IntC i) = Some (of_int i)"
| "number (FloatC x) = Some x"
| "number _ = None"

fun height_values :: "cell list \<Rightarrow> cell list \<Rightarrow> rat list" where
  "height_values (f # fs) (i # is) =
     (case (number f, number i) of
        (Some a, Some b) \<Rightarrow> (a * 12 + b) # height_values fs is
      | _ \<Rightarrow> height_values fs is)"
| "height_values _ _ = []"

definition heights_of :: "dataframe \<Rightarrow> rat list" where
  "heights_of df =
     (if ''Height - Feet'' \<in> set (columns df) \<and> ''Height - Inches'' \<in> set (columns df)
      then height_values (column df ''Height - Feet'') (column df ''Height - Inches'')
      else [])"

definition claimed_avg_height :: "dataframe \<Rightarrow> int \<times> rat" where
  "claimed_avg_height df =
     (let hs = heights_of df
      in if hs = [] then (0, 0)
         else (let m = sum_list hs / of_nat (length hs)
               in (\<lfloor>m / 12\<rfloor>, round1 (m - 12 * of_int \<lfloor>m / 12\<rfloor>))))"

definition amended_avg_height :: "dataframe \<Rightarrow> int \<times> rat" where
  "amended_avg_height df =
     (let hs = heights_of df
      in if hs = [] then (0, 0)
         else (let a = round1 (sum_list hs / of_nat (length hs))
               in if 0 < a then (\<lfloor>a / 12\<rfloor>, round1 (a - 12 * of_int \<lfloor>a / 12\<rfloor>))
                  else (0, 0)))"

definition numeric_table :: "dataframe \<Rightarrow> bool" where
  "numeric_table df =
     list_all (numeric_column df)
       [''Age'', ''BMI'', ''Waist Circumference (inches)'', ''Weight (lb)'',
        ''Height - Feet'', ''Height - Inches'']"

text \<open>The height a statistics response reports, and example inputs: an environment, a
  survey file with the ages 30 and 40, and one with twenty heights of 6 feet 0 inches and one
  of 5 feet 11 inches.\<close>

definition reported_height :: "exn + stats_response \<Rightarrow> (int \<times> rat) option" where
  "reported_height res =
     (case res of
        Inr (Statistics st) \<Rightarrow> Some (avg_height_feet st, avg_height_inches st)
      | _ \<Rightarrow> None)"

definition env_example :: os_env where
  "env_example = \<lparr>to_datetime = (\<lambda>v. None), strftime = (\<lambda>t. []), getsize = 2048\<rparr>"


definition heights_example :: dataframe where
  "heights_example =
     \<lparr>columns = headers,
      rows = replicate 20 (stored_record (''2024-01-01 10:00:00'',
                 survey_example\<lparr>heightFeet := 6, heightInches := 0\<rparr>)) @
             [stored_record (''2024-01-02 11:30:00'',
                 survey_example\<lparr>heightFeet := 5, heightInches := 11\<rparr>)]\<rparr>"


section \<open>Properties of the roster\<close>

lemma replicate_num: "replicate (numeral k) x = x # replicate (pred_numeral k) x"
  by (simp add: numeral_eq_Suc)

lemma str_nat_400: "str_nat 400 = ''400''"
  by simp

lemma str_nat_404: "str_nat 404 = ''404''"
  by simp

lemma str_nat_500: "str_nat 500 = ''500''"
  by simp

lemma load_rows_ok:
  "''EmployeeNumber'' \<in> set (columns df) \<Longrightarrow> ''EmployeeName'' \<in> set (columns df) \<Longrightarrow>
   load_rows frepr df rs = Inr (map (employee_of frepr) rs)"
  by (induction rs) (simp_all add: row_get_def employee_of_def)

lemma load_employees_ok:
  "employees_csv fs = Some df \<Longrightarrow> ''EmployeeNumber'' \<in> set (columns df) \<Longrightarrow>
   ''EmployeeName'' \<in> set (columns df) \<Longrightarrow>
   load_employees frepr fs = Inr (map (employee_of frepr) (rows df))"
  by (simp add: load_employees_def load_employees_body_def load_rows_ok)

lemma zfill_no_sign:
  "length s < w \<Longrightarrow> s = [] \<or> (hd s \<noteq> CHR ''+'' \<and> hd s \<noteq> CHR ''-'') \<Longrightarrow>
   zfill w s = replicate (w - length s) (CHR ''0'') @ s"
  by (cases s) (auto simp: zfill_def)

lemma zfill_long: "w \<le> length s \<Longrightarrow> zfill w s = s"
  by (simp add: zfill_def)

lemma decimal_no_sign:
  "decimal_string s \<Longrightarrow> s = [] \<or> (hd s \<noteq> CHR ''+'' \<and> hd s \<noteq> CHR ''-'')"
  by (cases s) (auto simp: decimal_string_def)

lemma load_employees_example:
  "load_employees frepr files_example =
     Inr [\<lparr>EmployeeNumber = ''00071215'', EmployeeName = ''Pyae Phyo Latt''\<rparr>,
          \<lparr>EmployeeNumber = ''00070098'', EmployeeName = ''Aye Aye Tun''\<rparr>,
          \<lparr>EmployeeNumber = ''00070782'', EmployeeName = ''Ni Ni Aung''\<rparr>]"
  by (simp add: load_employees_def load_employees_body_def files_example_def roster_example_def
      row_get_def cell_at_def zfill_def replicate_num)

text \<open>
  \<^bold>\<open>C3\<close>. The claim: loading the roster fails with a not-found error, status 404, whenever
  the roster file is absent. The code raises the 404 inside its \<open>try\<close> block, and the
  \<open>except Exception\<close> clause of the same function catches it and raises status 500 in its
  place. Evaluated for any files whose roster file is absent:
\<close>

theorem load_employees_absent_is_500:
  "load_employees frepr (fs\<lparr>employees_csv := None\<rparr>) =
     Inl (HTTPException 500 ''Error loading employee data: 404: Employee data file not found'')
   \<and> http_status (load_employees frepr (fs\<lparr>employees_csv := None\<rparr>)) = 500"
  by (simp add: load_employees_def load_employees_body_def)

text \<open>
  \<^bold>\<open>C5\<close>. When the roster file has its two columns, loading succeeds, every employee number
  is the \<open>zfill(8)\<close> of the text in the file, and for a number that is a decimal string: if
  it is shorter than 8 characters, the loaded number is the text with zeros in front and has
  exactly 8 characters; if it has 8 characters, the loaded number is the text unchanged.
\<close>

theorem load_employees_zero_pads:
  assumes "employees_csv fs = Some df"
    and "''EmployeeNumber'' \<in> set (columns df)" and "''EmployeeName'' \<in> set (columns df)"
  shows "load_employees frepr fs = Inr (map (employee_of frepr) (rows df)) \<and>
         (\<forall>r \<in> set (rows df). decimal_string (raw_number frepr r) \<longrightarrow>
            (length (raw_number frepr r) < 8 \<longrightarrow>
               EmployeeNumber (employee_of frepr r) =
                 replicate (8 - length (raw_number frepr r)) (CHR ''0'') @ raw_number frepr r \<and>
               length (EmployeeNumber (employee_of frepr r)) = 8) \<and>
            (length (raw_number frepr r) = 8 \<longrightarrow>
               EmployeeNumber (employee_of frepr r) = raw_number frepr r))"
proof (intro conjI ballI impI)
  show "load_employees frepr fs = Inr (map (employee_of frepr) (rows df))"
    using assms by (rule load_employees_ok)
next
  fix r
  assume d: "decimal_string (raw_number frepr r)"
  have num: "EmployeeNumber (employee_of frepr r) = zfill 8 (raw_number frepr r)"
    by (simp add: employee_of_def raw_number_def)
  {
    assume short: "length (raw_number frepr r) < 8"
    have z: "zfill 8 (raw_number frepr r) =
               replicate (8 - length (raw_number frepr r)) (CHR ''0'') @ raw_number frepr r"
      using short decimal_no_sign[OF d] by (rule zfill_no_sign)
    show "EmployeeNumber (employee_of frepr r) =
            replicate (8 - length (raw_number frepr r)) (CHR ''0'') @ raw_number frepr r"
      using z num by simp
    show "length (EmployeeNumber (employee_of frepr r)) = 8"
      using z num short by simp
  }
  {
    assume "length (raw_number frepr r) = 8"
    then show "EmployeeNumber (employee_of frepr r) = raw_number frepr r"
      using num by (simp add: zfill_long)
  }
qed

theorem load_employees_zero_pads_witness:
  "load_employees (\<lambda>x. []) files_example =
     Inr (map (employee_of (\<lambda>x. [])) (rows roster_example)) \<and>
   EmployeeNumber (employee_of (\<lambda>x. [])
       [(''EmployeeNumber'', StrC ''70782''), (''EmployeeName'', StrC ''Ni Ni Aung'')])
     = ''00070782'' \<and>
   EmployeeNumber (employee_of (\<lambda>x. [])
       [(''EmployeeNumber'', StrC ''00070098''), (''EmployeeName'', StrC ''Aye Aye Tun'')])
     = ''00070098''"
  using load_employees_zero_pads[of files_example roster_example "\<lambda>x. []"]
  by (simp add: files_example_def roster_example_def cell_at_def decimal_string_def
      raw_number_def replicate_num)

section \<open>Properties of \<open>submit_survey\<close>\<close>

text \<open>
  \<^bold>\<open>C1\<close>. The claim: a submission whose padded employee number is not in the roster fails
  with status 400 and the message \<open>Invalid employee number\<close>. The code raises exactly that
  inside its \<open>try\<close> block, and its own \<open>except Exception\<close> clause catches it and raises
  status 500 with another message. Evaluated on the example roster and the number
  \<open>99999999\<close>:
\<close>

theorem submit_unknown_employee_is_500:
  "submit_survey frepr files_example now (survey_example\<lparr>employeeNumber := ''99999999''\<rparr>) =
     (Inl (HTTPException 500 ''Error submitting survey: 400: Invalid employee number''),
      files_example)"
  by (simp add: submit_survey_def submit_survey_body_def load_employees_example
      survey_example_def zfill_def)

text \<open>
  \<^bold>\<open>C4\<close>. A submission whose padded employee number is not among the numbers of the loaded
  roster (or whose roster does not load) fails, and the files after it are the files before
  it: nothing is written, and the stored responses read the same.
\<close>

theorem submit_unknown_employee_no_write:
  assumes "\<forall>emps. load_employees frepr fs = Inr emps \<longrightarrow>
             zfill 8 (employeeNumber survey) \<notin> set (map EmployeeNumber emps)"
  shows "\<exists>e. submit_survey frepr fs now survey = (Inl e, fs) \<and>
             get_survey_responses (snd (submit_survey frepr fs now survey)) =
               get_survey_responses fs"
proof (cases "load_employees frepr fs")
  case (Inl e)
  then show ?thesis by (simp add: submit_survey_def submit_survey_body_def)
next
  case (Inr emps)
  with assms have "zfill 8 (employeeNumber survey) \<notin> set (map EmployeeNumber emps)" by simp
  with Inr show ?thesis by (simp add: submit_survey_def submit_survey_body_def Let_def)
qed

theorem submit_unknown_employee_no_write_witness:
  "snd (submit_survey (\<lambda>x. []) files_example ''2024-01-01 10:00:00''
         (survey_example\<lparr>employeeNumber := ''123''\<rparr>)) = files_example \<and>
   get_survey_responses (snd (submit_survey (\<lambda>x. []) files_example ''2024-01-01 10:00:00''
         (survey_example\<lparr>employeeNumber := ''123''\<rparr>))) = Inr []"
proof -
  have pad: "zfill 8 (employeeNumber (survey_example\<lparr>employeeNumber := ''123''\<rparr>)) = ''00000123''"
    by (simp add: zfill_def replicate_num)
  have unknown: "\<forall>emps. load_employees (\<lambda>x. []) files_example = Inr emps \<longrightarrow>
      zfill 8 (employeeNumber (survey_example\<lparr>employeeNumber := ''123''\<rparr>))
        \<notin> set (map EmployeeNumber emps)"
    unfolding pad by (simp add: load_employees_example)
  have none: "get_survey_responses files_example = Inr []"
    by (simp add: get_survey_responses_def files_example_def)
  from submit_unknown_employee_no_write[OF unknown, of "''2024-01-01 10:00:00''"] none
  show ?thesis by auto
qed



















lemma round1_one_decimal: "\<exists>k::int. round1 x = of_int k / 10"
  by (auto simp: round1_def)












section \<open>Properties of the downloads\<close>

text \<open>
  \<^bold>\<open>C2\<close>. The claim: both downloads fail with a not-found error, status 404, when the
  survey file is absent or holds no record. In both functions the two 404 exceptions are raised
  inside the \<open>try\<close> block; they are not \<open>FileNotFoundError\<close>, so the \<open>except Exception\<close>
  clause catches them and raises status 500. Evaluated for an absent file and for a file with
  no row:
\<close>

theorem downloads_without_data_are_500:
  "download_survey_responses frepr (fs\<lparr>survey_data_csv := None\<rparr>) stamp =
     Inl (HTTPException 500 ''Error downloading survey responses: 404: No survey responses found'') \<and>
   download_survey_responses frepr (fs\<lparr>survey_data_csv := Some \<lparr>columns = cs, rows = []\<rparr>\<rparr>) stamp =
     Inl (HTTPException 500
       ''Error downloading survey responses: 404: No survey responses available for download'') \<and>
   download_survey_responses_excel (fs\<lparr>survey_data_csv := None\<rparr>) stamp =
     Inl (HTTPException 500 ''Error downloading survey responses: 404: No survey responses found'') \<and>
   download_survey_responses_excel (fs\<lparr>survey_data_csv := Some \<lparr>columns = cs, rows = []\<rparr>\<rparr>) stamp =
     Inl (HTTPException 500
       ''Error downloading survey responses: 404: No survey responses available for download'')"
  by (simp add: download_survey_responses_def download_survey_responses_body_def
      download_survey_responses_excel_def download_survey_responses_excel_body_def empty_df_def)

section \<open>Properties of the statistics\<close>

lemma nums_of_numeric:
  "list_all (\<lambda>v. \<not> is_text v) vs \<Longrightarrow>
   \<exists>xs. nums_of vs = Inr xs \<and> present xs = cell_values vs \<and> length xs = length vs"
proof (induction vs)
  case Nil
  then show ?case by (simp add: present_def)
next
  case (Cons v vs)
  then obtain xs where xs: "nums_of vs = Inr xs" "present xs = cell_values vs" "length xs = length vs"
    by auto
  from Cons.prems have "\<not> is_text v" by simp
  then show ?case using xs
    by (cases v) (simp_all add: bind_def present_def)
qed

lemma isna_all_values:
  "list_all (\<lambda>v. \<not> is_text v) vs \<Longrightarrow> isna_all vs \<longleftrightarrow> cell_values vs = []"
proof (induction vs)
  case Nil
  then show ?case by (simp add: isna_all_def)
next
  case (Cons v vs)
  then show ?case by (cases v) (simp_all add: isna_all_def)
qed

lemma avg_column_spec:
  assumes "numeric_column df c"
  shows "avg_column df c = Inr (Some (spec_average df c))"
proof -
  from assms obtain xs where xs: "nums_of (column df c) = Inr xs"
    "present xs = cell_values (column df c)"
    using nums_of_numeric by (auto simp: numeric_column_def)
  have na: "isna_all (column df c) \<longleftrightarrow> cell_values (column df c) = []"
    using assms by (simp add: isna_all_values numeric_column_def)
  show ?thesis
  proof (cases "c \<in> set (columns df) \<and> cell_values (column df c) \<noteq> []")
    case True
    then show ?thesis using xs na
      by (simp add: avg_column_def series_mean_def bind_def mean_of_def spec_average_def Let_def)
  next
    case False
    then show ?thesis using na
      by (auto simp: avg_column_def spec_average_def Let_def)
  qed
qed


lemma total_height_numeric:
  "list_all (\<lambda>v. \<not> is_text v) fs \<Longrightarrow> list_all (\<lambda>v. \<not> is_text v) is \<Longrightarrow>
   \<exists>xs. total_height_inches fs is = Inr xs \<and> present xs = height_values fs is \<and>
        (list_all (\<lambda>x. x = None) xs \<longleftrightarrow> height_values fs is = [])"
proof (induction fs "is" rule: total_height_inches.induct)
  case (1 f fs i "is")
  then obtain xs where xs: "total_height_inches fs is = Inr xs" "present xs = height_values fs is"
    "list_all (\<lambda>x. x = None) xs \<longleftrightarrow> height_values fs is = []"
    by auto
  from "1.prems" have "\<not> is_text f" "\<not> is_text i" by simp_all
  then show ?case using xs
    by (cases f; cases i) (simp_all add: bind_def present_def total_inches_def)
qed (simp_all add: present_def)

lemma avg_height_spec:
  assumes "numeric_column df ''Height - Feet''" and "numeric_column df ''Height - Inches''"
  shows "avg_height df = Inr (amended_avg_height df)"
proof (cases "''Height - Feet'' \<in> set (columns df) \<and> ''Height - Inches'' \<in> set (columns df)")
  case False
  then show ?thesis
    by (auto simp: avg_height_def amended_avg_height_def heights_of_def)
next
  case True
  let ?f = "column df ''Height - Feet''" and ?i = "column df ''Height - Inches''"
  from assms obtain xs where xs: "total_height_inches ?f ?i = Inr xs"
    "present xs = height_values ?f ?i"
    "list_all (\<lambda>x. x = None) xs \<longleftrightarrow> height_values ?f ?i = []"
    using total_height_numeric[of ?f ?i] by (auto simp: numeric_column_def)
  have h: "heights_of df = height_values ?f ?i" using True by (simp add: heights_of_def)
  show ?thesis
  proof (cases "height_values ?f ?i = []")
    case e: True
    then show ?thesis using True xs h
      by (simp add: avg_height_def bind_def amended_avg_height_def Let_def)
  next
    case ne: False
    then show ?thesis using True xs h
      by (simp add: avg_height_def bind_def amended_avg_height_def Let_def mean_of_def)
  qed
qed

lemma stats_ok:
  assumes "survey_data_csv fs = Some df" and "\<not> empty_df df" and "numeric_table df"
  shows "get_survey_statistics w fs = Inr (Statistics
           \<lparr>total_responses = length (rows df),
            gender_distribution = distribution df ''Gender'',
            avg_age = Some (spec_average df ''Age''),
            avg_bmi = Some (spec_average df ''BMI''),
            avg_waist = Some (spec_average df ''Waist Circumference (inches)''),
            avg_weight = Some (spec_average df ''Weight (lb)''),
            avg_height_feet = fst (amended_avg_height df),
            avg_height_inches = snd (amended_avg_height df),
            bmi_categories = distribution df ''BMI Category'',
            first_response = fst (date_range w df),
            last_response = snd (date_range w df),
            size_kb = round_half_even_at 2 (of_nat (getsize w) / 1024),
            location = ''data/survey_responses.csv''\<rparr>)"
proof -
  from assms(3) have n: "numeric_column df ''Age''" "numeric_column df ''BMI''"
    "numeric_column df ''Waist Circumference (inches)''" "numeric_column df ''Weight (lb)''"
    "numeric_column df ''Height - Feet''" "numeric_column df ''Height - Inches''"
    by (simp_all add: numeric_table_def)
  show ?thesis
    using assms(1,2)
    by (simp add: get_survey_statistics_def get_survey_statistics_body_def bind_def
        avg_column_spec[OF n(1)] avg_column_spec[OF n(2)] avg_column_spec[OF n(3)]
        avg_column_spec[OF n(4)] avg_height_spec[OF n(5) n(6)] split_beta)
qed



lemma round_half_even_int: "round_half_even (of_int k) = k"
  by (simp add: round_half_even_def Let_def)

lemma round1_tenth: "round1 (of_int k / 10) = of_int k / 10"
  by (simp add: round1_def round_half_even_int)

lemma round1_remainder:
  "round1 (round1 x - 12 * of_int n) = round1 x - 12 * of_int n"
proof -
  obtain k :: int where k: "round1 x = of_int k / 10" using round1_one_decimal by blast
  have "round1 x - 12 * of_int n = of_int (k - 120 * n) / 10"
    by (simp add: k field_simps)
  then show ?thesis by (simp only: round1_tenth)
qed

lemma remainder_bounds:
  fixes a :: rat
  shows "0 \<le> a - 12 * of_int \<lfloor>a / 12\<rfloor>" and "a - 12 * of_int \<lfloor>a / 12\<rfloor> < 12"
proof -
  have "of_int \<lfloor>a / 12\<rfloor> \<le> a / 12" "a / 12 < of_int \<lfloor>a / 12\<rfloor> + 1" by linarith+
  then show "0 \<le> a - 12 * of_int \<lfloor>a / 12\<rfloor>" and "a - 12 * of_int \<lfloor>a / 12\<rfloor> < 12"
    by (simp_all add: field_simps)
qed

lemma amended_avg_height_props:
  "0 \<le> snd (amended_avg_height df) \<and> snd (amended_avg_height df) < 12 \<and>
   (heights_of df = [] \<longrightarrow> amended_avg_height df = (0, 0)) \<and>
   (heights_of df \<noteq> [] \<longrightarrow>
      0 < round1 (sum_list (heights_of df) / of_nat (length (heights_of df))) \<longrightarrow>
      of_int (fst (amended_avg_height df)) * 12 + snd (amended_avg_height df) =
        round1 (sum_list (heights_of df) / of_nat (length (heights_of df))))"
  using remainder_bounds[of "round1 (sum_list (heights_of df) / of_nat (length (heights_of df)))"]
  by (auto simp: amended_avg_height_def Let_def round1_remainder)


text \<open>
  \<^bold>\<open>C8\<close>, as amended. The mean of the total inches is rounded to one decimal first; the
  reported feet are the floor of a twelfth of the rounded mean and the reported inches the
  remainder of the rounded mean, so that the inches lie in \<open>[0, 12)\<close> and feet and inches add up
  to the rounded mean; both are 0 when no record has a height (or the rounded mean is not
  positive). The claim as stated takes feet and inches from the unrounded mean; the
  counterexample below shows the two apart.
\<close>

theorem statistics_height:
  assumes "survey_data_csv fs = Some df" and "\<not> empty_df df" and "numeric_table df"
  shows "\<exists>st. get_survey_statistics w fs = Inr (Statistics st) \<and>
           (avg_height_feet st, avg_height_inches st) = amended_avg_height df \<and>
           0 \<le> avg_height_inches st \<and> avg_height_inches st < 12 \<and>
           (heights_of df = [] \<longrightarrow> avg_height_feet st = 0 \<and> avg_height_inches st = 0) \<and>
           (heights_of df \<noteq> [] \<longrightarrow>
              0 < round1 (sum_list (heights_of df) / of_nat (length (heights_of df))) \<longrightarrow>
              of_int (avg_height_feet st) * 12 + avg_height_inches st =
                round1 (sum_list (heights_of df) / of_nat (length (heights_of df))))"
  using stats_ok[OF assms, of w] amended_avg_height_props[of df]
  by simp






lemma heights_numeric: "numeric_table heights_example"
  by code_simp

lemma heights_nonempty: "\<not> empty_df heights_example"
  by code_simp

lemma heights_amended: "amended_avg_height heights_example = (6, 0)"
  by code_simp

lemma heights_claimed: "claimed_avg_height heights_example = (5, 12)"
  by code_simp



text \<open>
  Twenty records of 6 feet 0 inches and one of 5 feet 11 inches have the mean
  \<open>1511 / 21\<close>, about 71.95 inches. The code reports 6 feet 0.0 inches; the floor of a
  twelfth of the mean is 5 and the remainder rounds to 12.0 inches.
\<close>

theorem avg_height_counterexample:
  "reported_height (get_survey_statistics env_example
       (files_example\<lparr>survey_data_csv := Some heights_example\<rparr>)) = Some (6, 0) \<and>
   claimed_avg_height heights_example = (5, 12) \<and>
   reported_height (get_survey_statistics env_example
       (files_example\<lparr>survey_data_csv := Some heights_example\<rparr>))
     \<noteq> Some (claimed_avg_height heights_example)"
proof -
  have f: "survey_data_csv (files_example\<lparr>survey_data_csv := Some heights_example\<rparr>) = Some heights_example"
    by simp
  show ?thesis
    using stats_ok[OF f heights_nonempty heights_numeric, of env_example]
    by (simp add: reported_height_def heights_amended heights_claimed)
qed

theorem statistics_height_witness:
  "\<exists>st. get_survey_statistics env_example (files_example\<lparr>survey_data_csv := Some heights_example\<rparr>)
          = Inr (Statistics st) \<and>
        avg_height_feet st = 6 \<and> avg_height_inches st = 0"
proof -
  have f: "survey_data_csv (files_example\<lparr>survey_data_csv := Some heights_example\<rparr>) = Some heights_example"
    by simp
  from statistics_height[OF f heights_nonempty heights_numeric, of env_example]
  show ?thesis unfolding heights_amended by auto
qed


section \<open>Properties of the exported files\<close>












end
